theory Spec2Isabelle
  imports Main "HOL-Library.AList" "HOL-Library.Sublist"
begin

section \<open>Python strings\<close>

text \<open>
  A Python \<open>str\<close> is a \<open>string\<close>; one \<open>char\<close> stands for one code point, so the model
  covers text whose code points are below 256.
\<close>

text \<open>\<open>sub in s\<close>: \<open>sub\<close> occurs in \<open>s\<close> as a contiguous run.\<close>

fun contains :: "string \<Rightarrow> string \<Rightarrow> bool" where
  "contains sub [] = (sub = [])"
| "contains sub (c # cs) = (prefix sub (c # cs) \<or> contains sub cs)"

text \<open>
  \<open>s.split(sep)\<close> for a one-character separator: every occurrence of the separator
  ends a piece, empty pieces are kept, and the result is never empty.
\<close>

fun split_on :: "char \<Rightarrow> string \<Rightarrow> string list" where
  "split_on sep [] = [[]]"
| "split_on sep (c # cs) =
     (if c = sep then [] # split_on sep cs
      else (case split_on sep cs of
              [] \<Rightarrow> [[c]]
            | w # ws \<Rightarrow> (c # w) # ws))"

text \<open>\<open>os.path.basename(p)\<close>: what follows the last slash, \<open>p[p.rfind('/') + 1:]\<close>.\<close>

definition basename :: "string \<Rightarrow> string" where
  "basename p = rev (takeWhile (\<lambda>c. c \<noteq> CHR ''/'') (rev p))"

text \<open>\<open>s.replace('-', ' ')\<close>.\<close>

definition replace_dash :: "string \<Rightarrow> string" where
  "replace_dash s = map (\<lambda>c. if c = CHR ''-'' then CHR '' '' else c) s"

text \<open>
  \<open>int(s)\<close> on a \<open>str\<close>, base ten. The white space \<open>int\<close> drops around the literal is
  tab, line feed, vertical tab, form feed, carriage return and blank, and of the code
  points from 128 on, NEL (133) and the no-break space (160). The four separators 28 to
  31, white space for \<open>str.isspace\<close>, are not dropped: \<open>int\<close> raises ValueError on them.
  One sign may lead, and single underscores may stand between digits. A literal of more
  than 4300 digits is refused (the default of \<open>sys.get_int_max_str_digits()\<close>).
  \<open>None\<close> is ValueError.
\<close>

definition is_int_space :: "char \<Rightarrow> bool" where
  "is_int_space c = (of_char c \<in> {9, 10, 11, 12, 13, 32, 133, 160 :: nat})"

definition strip :: "string \<Rightarrow> string" where
  "strip s = rev (dropWhile is_int_space (rev (dropWhile is_int_space s)))"

definition max_str_digits :: nat where
  "max_str_digits = 4300"

definition is_digit :: "char \<Rightarrow> bool" where
  "is_digit c = (48 \<le> (of_char c :: nat) \<and> (of_char c :: nat) \<le> 57)"

definition digit_val :: "char \<Rightarrow> nat" where
  "digit_val c = of_char c - 48"

fun after_digit :: "nat \<Rightarrow> string \<Rightarrow> nat option" where
  "after_digit acc [] = Some acc"
| "after_digit acc [c] = (if is_digit c then Some (acc * 10 + digit_val c) else None)"
| "after_digit acc (c # d # ds) =
     (if c = CHR ''_'' then
        (if is_digit d then after_digit (acc * 10 + digit_val d) ds else None)
      else if is_digit c then after_digit (acc * 10 + digit_val c) (d # ds)
      else None)"

definition unsigned_literal :: "string \<Rightarrow> nat option" where
  "unsigned_literal s =
     (case s of
        [] \<Rightarrow> None
      | c # cs \<Rightarrow> if is_digit c then after_digit (digit_val c) cs else None)"

definition py_int :: "string \<Rightarrow> int option" where
  "py_int s =
     (case strip s of
        [] \<Rightarrow> None
      | c # cs \<Rightarrow>
          if max_str_digits < length (filter is_digit (c # cs)) then None
          else if c = CHR ''+'' then map_option int (unsigned_literal cs)
          else if c = CHR ''-'' then map_option (\<lambda>n. - int n) (unsigned_literal cs)
          else map_option int (unsigned_literal (c # cs)))"

section \<open>Exceptions\<close>

text \<open>
  The exception classes of the module, with what each carries, and the built-in
  exceptions its expressions can raise. \<open>TradeClosedError\<close> and \<open>TradeNotReadyError\<close>
  copy the id and the title of the \<open>TradeInfo\<close> they are built from.
\<close>

datatype error =
    LoginError string
  | UserLevelError string
  | UserSuspended string
  | TooFast string
  | PrivateProfile string
  | TradeClosedError string string string
  | TradeNotReadyError string string int string
  | NoTradesError string
  | KeyError
  | IndexError
  | TypeError
  | AttributeError
  | ValueError
  | JSONDecodeError

section \<open>Parsed markup\<close>

text \<open>
  What \<open>BeautifulSoup(text, 'html.parser')\<close> hands back: a forest of strings and tags.
  A tag has its name, the list that is its \<open>class\<close> attribute (empty when it has none),
  its other attributes and its contents. The parser itself is a parameter of the model.
\<close>

datatype node =
    Text string
  | Tag (name: string) (classes: "string list") (attrs: "(string \<times> string) list")
        (contents: "node list")

text \<open>Every node below a forest, in document order.\<close>

fun descendants :: "node list \<Rightarrow> node list" where
  "descendants [] = []"
| "descendants (Text s # ns) = Text s # descendants ns"
| "descendants (Tag n cs as ks # ns) = Tag n cs as ks # descendants ks @ descendants ns"

text \<open>The test of \<open>find(tag, class_=cls)\<close>: a tag of that name, carrying that class when one is asked for.\<close>

fun matches :: "string \<Rightarrow> string option \<Rightarrow> node \<Rightarrow> bool" where
  "matches tag cls (Text s) = False"
| "matches tag None (Tag n cs as ks) = (n = tag)"
| "matches tag (Some c) (Tag n cs as ks) = (n = tag \<and> c \<in> set cs)"

definition find_all :: "string \<Rightarrow> string option \<Rightarrow> node list \<Rightarrow> node list" where
  "find_all tag cls soup = filter (matches tag cls) (descendants soup)"

text \<open>\<open>find\<close> is the first entry of \<open>find_all\<close>, or \<open>None\<close>.\<close>

definition find_first :: "string \<Rightarrow> string option \<Rightarrow> node list \<Rightarrow> node option" where
  "find_first tag cls soup = List.find (matches tag cls) (descendants soup)"

text \<open>\<open>el.text\<close>: the strings below the element, joined.\<close>

fun get_text :: "node \<Rightarrow> string" and texts :: "node list \<Rightarrow> string" where
  "get_text (Text s) = s"
| "get_text (Tag n cs as ks) = texts ks"
| "texts [] = []"
| "texts (k # ks) = get_text k @ texts ks"

text \<open>\<open>el[key]\<close>: \<open>None\<close> is KeyError.\<close>

fun getitem :: "node \<Rightarrow> string \<Rightarrow> string option" where
  "getitem (Text s) key = None"
| "getitem (Tag n cs as ks) key = map_of as key"

text \<open>The idiom \<open>el and needle in el.text\<close>.\<close>

definition has_text :: "node option \<Rightarrow> string \<Rightarrow> bool" where
  "has_text el needle = (case el of None \<Rightarrow> False | Some e \<Rightarrow> contains needle (get_text e))"

section \<open>Dictionaries and lists\<close>

text \<open>
  A \<open>dict\<close> is an association list with distinct keys in insertion order:
  \<open>d[k] = v\<close> is \<open>AList.update k v d\<close> (a key already present keeps its place and
  takes the new value), \<open>d[k]\<close> is \<open>map_of d k\<close> with \<open>None\<close> for KeyError.
\<close>

type_synonym form_data = "(string \<times> string) list"

datatype pyval = PBool bool | PStr string

text \<open>\<open>d.update(data)\<close>: the entries of \<open>data\<close> are stored one after the other.\<close>

definition dict_update :: "(string \<times> pyval) list \<Rightarrow> form_data \<Rightarrow> (string \<times> pyval) list" where
  "dict_update d data = fold (\<lambda>(k, v). AList.update k (PStr v)) data d"

text \<open>\<open>xs[i]\<close> for \<open>i \<ge> 0\<close>: \<open>None\<close> is IndexError.\<close>

definition index :: "'a list \<Rightarrow> nat \<Rightarrow> 'a option" where
  "index xs i = (if i < length xs then Some (xs ! i) else None)"

section \<open>The HTTP session\<close>

text \<open>
  The session is a parameter: a function from the request sent to the response received.
  Each operation returns, next to its result, the requests it has sent, in order.
\<close>

type_synonym headers = "(string \<times> string) list option"

datatype request =
    GET string headers
  | POST string headers "form_data option"

record response =
  url_path :: string
  body :: string

text \<open>The plugin object, with the defaults of its constructor.\<close>

record SteamTrades =
  server :: string
  bump_script :: string
  login_page :: string
  openid_url :: string
  headers :: headers

definition default_plugin :: SteamTrades where
  "default_plugin =
     \<lparr>server = ''https://www.steamtrades.com'',
      bump_script = ''ajax.php'',
      login_page = ''https://steamtrades.com/?login'',
      openid_url = ''https://steamcommunity.com/openid'',
      headers = None\<rparr>"

record TradeInfo =
  id' :: string
  title :: string
  html :: string

section \<open>do_login\<close>

text \<open>Lines 87 to 99: the login page has no form.\<close>

definition login_page_failure :: "node list \<Rightarrow> error" where
  "login_page_failure page =
     (let nav_button = find_first ''a'' (Some ''nav__button'') page;
          warning = find_first ''div'' (Some ''notification--warning'') page
      in if has_text nav_button ''Suspensions''
           then UserSuspended ''Unable to login, user is suspended.''
         else if has_text warning ''Please wait''
           then TooFast ''Wait 15 seconds before try again.''
         else if has_text warning ''public Steam profile''
           then PrivateProfile ''Your profile must be public to use steamtrades.''
         else LoginError ''Unable to log-in on steamtrades'')"

text \<open>
  Lines 101 to 103: the loop over the inputs of the form. An input without a value or
  without a name raises KeyError, which is suppressed: the input is skipped.
\<close>

fun login_fields :: "node list \<Rightarrow> form_data \<Rightarrow> form_data" where
  "login_fields [] data = data"
| "login_fields (input # inputs) data =
     login_fields inputs
       (case getitem input ''value'' of
          None \<Rightarrow> data
        | Some v \<Rightarrow>
            (case getitem input ''name'' of
               None \<Rightarrow> data
             | Some n \<Rightarrow> AList.update n v data))"

text \<open>Lines 106 to 130: the page that answers the POST.\<close>

definition post_login :: "node list \<Rightarrow> form_data \<Rightarrow> error + (string \<times> pyval) list" where
  "post_login page data =
     (let avatar = find_first ''a'' (Some ''nav_avatar'') page;
          nav_button = find_first ''a'' (Some ''nav__button'') page;
          notification = find_first ''div'' (Some ''notification'') page;
          warning = find_first ''div'' (Some ''notification--warning'') page
      in case avatar of
           Some av \<Rightarrow>
             if has_text nav_button ''Suspensions''
               then Inl (UserSuspended ''Unable to login, user is suspended.'')
             else (case getitem av ''href'' of
                     None \<Rightarrow> Inl KeyError
                   | Some href \<Rightarrow>
                       (case index (split_on CHR ''/'' href) 2 of
                          None \<Rightarrow> Inl IndexError
                        | Some steamid \<Rightarrow>
                            Inr (dict_update
                                   [(''success'', PBool True), (''steamid'', PStr steamid)]
                                   data)))
         | None \<Rightarrow>
             if has_text notification ''Steam level''
               then Inl (UserLevelError ''Steam level must be greater to 1.'')
             else if has_text warning ''public Steam profile''
               then Inl (PrivateProfile ''Your profile must be public to use steamtrades.'')
             else Inl (LoginError ''Unable to log-in on steamtrades''))"

definition do_login ::
  "(string \<Rightarrow> node list) \<Rightarrow> (request \<Rightarrow> response) \<Rightarrow> SteamTrades
     \<Rightarrow> (error + (string \<times> pyval) list) \<times> request list" where
  "do_login parse http self =
     (let request1 = GET (login_page self) (headers self);
          page = parse (body (http request1))
      in case find_first ''form'' None page of
           None \<Rightarrow> (Inl (login_page_failure page), [request1])
         | Some form \<Rightarrow>
             (let data = login_fields (find_all ''input'' None (contents form)) [];
                  request2 = POST (openid_url self @ ''/login'') (headers self) (Some data)
              in (post_login (parse (body (http request2))) data, [request1, request2])))"

section \<open>get_trade_info\<close>

definition get_trade_info ::
  "(request \<Rightarrow> response) \<Rightarrow> SteamTrades \<Rightarrow> string \<Rightarrow> (error + TradeInfo) \<times> request list" where
  "get_trade_info http self trade_id =
     (let request1 = GET (server self @ ''/trade/'' @ trade_id @ ''/'') (headers self);
          response = http request1
      in case index (split_on CHR ''/'' (url_path response)) 2 of
           None \<Rightarrow> (Inl IndexError, [request1])
         | Some id_str \<Rightarrow>
             (Inr \<lparr>id' = id_str,
                   title = take 22 (replace_dash (basename (url_path response))) @ ''...'',
                   html = body response\<rparr>,
              [request1]))"

section \<open>JSON values\<close>

text \<open>
  What \<open>json.loads\<close> hands back; the decoder itself is a parameter of the model, with
  \<open>None\<close> for JSONDecodeError. An object is a \<open>dict\<close>, so its keys are distinct strings.
  The digits of a float are kept as they were read: no operation below looks at them.
\<close>

datatype json =
    JNull
  | JBool bool
  | JInt int
  | JFloat string
  | JStr string
  | JArr "json list"
  | JObj "(string \<times> json) list"

text \<open>\<open>v[key]\<close> for a string key.\<close>

fun json_key :: "json \<Rightarrow> string \<Rightarrow> error + json" where
  "json_key (JObj kvs) key = (case map_of kvs key of None \<Rightarrow> Inl KeyError | Some v \<Rightarrow> Inr v)"
| "json_key v key = Inl TypeError"

text \<open>
  \<open>v[i]\<close> for an integer \<open>i \<ge> 0\<close>: no key of an object is an integer, a list gives its
  element and a string its character.
\<close>

fun json_index :: "json \<Rightarrow> nat \<Rightarrow> error + json" where
  "json_index (JObj kvs) i = Inl KeyError"
| "json_index (JArr vs) i = (case index vs i of None \<Rightarrow> Inl IndexError | Some v \<Rightarrow> Inr v)"
| "json_index (JStr s) i = (case index s i of None \<Rightarrow> Inl IndexError | Some c \<Rightarrow> Inr (JStr [c]))"
| "json_index v i = Inl TypeError"

section \<open>bump\<close>

text \<open>
  Lines 152 and 153: the loop over the inputs of the form. Here KeyError is not caught:
  an input without a value or without a name ends the call.
\<close>

fun bump_fields :: "node list \<Rightarrow> form_data \<Rightarrow> form_data option" where
  "bump_fields [] data = Some data"
| "bump_fields (input # inputs) data =
     (case getitem input ''value'' of
        None \<Rightarrow> None
      | Some v \<Rightarrow>
          (case getitem input ''name'' of
             None \<Rightarrow> None
           | Some n \<Rightarrow> bump_fields inputs (AList.update n v data)))"

text \<open>Lines 140 to 161: everything before the first request.\<close>

definition bump_payload :: "TradeInfo \<Rightarrow> node list \<Rightarrow> error + form_data" where
  "bump_payload trade_info soup =
     (if find_first ''a'' (Some ''nav_avatar'') soup = None
        then Inl (LoginError ''User is not logged in'')
      else if find_first ''div'' (Some ''js_trade_open'') soup \<noteq> None
        then Inl (TradeClosedError (id' trade_info) (title trade_info)
                    (''Trade '' @ id' trade_info @ '' is closed''))
      else (case find_first ''form'' None soup of
              None \<Rightarrow> Inl (NoTradesError ''No trades available to bump'')
            | Some form \<Rightarrow>
                (case bump_fields (find_all ''input'' None (contents form)) [] of
                   None \<Rightarrow> Inl KeyError
                 | Some data \<Rightarrow>
                     (case map_of data ''code'' of
                        None \<Rightarrow> Inl KeyError
                      | Some code \<Rightarrow>
                          (case map_of data ''xsrf_token'' of
                             None \<Rightarrow> Inl KeyError
                           | Some xsrf_token \<Rightarrow>
                               Inr [(''code'', code), (''xsrf_token'', xsrf_token),
                                    (''do'', ''trade_bump'')])))))"

text \<open>Lines 170 and 171: the minutes left, read from the body of the answer.\<close>

definition minutes_left :: "(string \<Rightarrow> json option) \<Rightarrow> string \<Rightarrow> error + int" where
  "minutes_left loads text =
     (case loads text of
        None \<Rightarrow> Inl JSONDecodeError
      | Some v \<Rightarrow>
          (case json_key v ''popup_heading_h2'' of
             Inl e \<Rightarrow> Inl e
           | Inr heading \<Rightarrow>
               (case json_index heading 0 of
                  Inl e \<Rightarrow> Inl e
                | Inr (JStr error) \<Rightarrow>
                    (case index (split_on CHR '' '' error) 3 of
                       None \<Rightarrow> Inl IndexError
                     | Some token \<Rightarrow>
                         (case py_int token of
                            None \<Rightarrow> Inl ValueError
                          | Some n \<Rightarrow> Inr n))
                | Inr other \<Rightarrow> Inl AttributeError)))"

definition bump ::
  "(string \<Rightarrow> node list) \<Rightarrow> (string \<Rightarrow> json option) \<Rightarrow> (request \<Rightarrow> response) \<Rightarrow> SteamTrades
     \<Rightarrow> TradeInfo \<Rightarrow> (error + bool) \<times> request list" where
  "bump parse loads http self trade_info =
     (case bump_payload trade_info (parse (html trade_info)) of
        Inl e \<Rightarrow> (Inl e, [])
      | Inr payload \<Rightarrow>
          (let request1 = POST (server self @ ''/'' @ bump_script self) (headers self) (Some payload);
               text = body (http request1)
           in if contains ''Please wait another'' text then
                (case minutes_left loads text of
                   Inl e \<Rightarrow> (Inl e, [request1])
                 | Inr minutes \<Rightarrow>
                     (Inl (TradeNotReadyError (id' trade_info) (title trade_info) minutes
                             (''Trade '' @ id' trade_info @ '' is not ready'')),
                      [request1]))
              else
                (let request2 = POST (server self @ ''/trades'') (headers self) None
                 in (Inr (contains (id' trade_info) (body (http request2))),
                     [request1, request2]))))"

section \<open>Stand-ins for the collaborators\<close>

text \<open>
  Table-driven stand-ins for the parser, the decoder and the session, to run the
  operations on concrete pages.
\<close>

definition stub_parse :: "(string \<times> node list) list \<Rightarrow> string \<Rightarrow> node list" where
  "stub_parse pages text = (case map_of pages text of None \<Rightarrow> [] | Some soup \<Rightarrow> soup)"

definition stub_loads :: "(string \<times> json) list \<Rightarrow> string \<Rightarrow> json option" where
  "stub_loads values text = map_of values text"

definition stub_http :: "(request \<times> response) list \<Rightarrow> request \<Rightarrow> response" where
  "stub_http answers request =
     (case map_of answers request of
        None \<Rightarrow> \<lparr>url_path = [], body = []\<rparr>
      | Some answer \<Rightarrow> answer)"

section \<open>A trade page for the examples\<close>

text \<open>
  A page as \<open>bump\<close> expects it (the avatar link, and a form with the two tokens), the
  \<open>TradeInfo\<close> that carries it, and the payload and the request \<open>bump\<close> builds from it
  with the default plugin.
\<close>

definition example_page :: "node list" where
  "example_page =
     [Tag ''a'' [''nav_avatar''] [(''href'', ''/user/7'')] [],
      Tag ''form'' [] []
        [Tag ''input'' [] [(''name'', ''code''), (''value'', ''c0de'')] [],
         Tag ''input'' [] [(''name'', ''xsrf_token''), (''value'', ''t0ken'')] []]]"

definition example_trade :: TradeInfo where
  "example_trade = \<lparr>id' = ''123'', title = ''some title...'', html = ''trade page''\<rparr>"

definition example_parse :: "string \<Rightarrow> node list" where
  "example_parse = stub_parse [(''trade page'', example_page)]"

definition example_payload :: form_data where
  "example_payload = [(''code'', ''c0de''), (''xsrf_token'', ''t0ken''), (''do'', ''trade_bump'')]"

definition example_request :: request where
  "example_request = POST ''https://www.steamtrades.com/ajax.php'' None (Some example_payload)"

section \<open>A login for the examples\<close>

text \<open>
  A login form with four inputs, two of them sharing the name \<open>openid.ns\<close>, the last
  without a value (the first two inputs sit in a \<open>div\<close> of the form); the page that holds the form; the fields \<open>do_login\<close> collects from it; the
  avatar link of a logged-in page; and a session that answers the GET of the login page
  and the POST of those fields.
\<close>

definition example_login_form :: node where
  "example_login_form =
     Tag ''form'' [] [(''action'', ''https://steamcommunity.com/openid/login''), (''method'', ''post'')]
       [Tag ''div'' [] []
          [Tag ''input'' [] [(''type'', ''hidden''), (''name'', ''openid.mode''), (''value'', ''checkid_setup'')] [],
           Tag ''input'' [] [(''type'', ''hidden''), (''name'', ''openid.ns''), (''value'', ''one'')] []],
        Tag ''input'' [] [(''type'', ''hidden''), (''name'', ''openid.ns''), (''value'', ''two'')] [],
        Tag ''input'' [] [(''type'', ''submit''), (''name'', ''go'')] []]"

definition example_login_page :: "node list" where
  "example_login_page =
     [Tag ''html'' [] [] [Tag ''body'' [] [] [Tag ''h1'' [] [] [Text ''Sign in''], example_login_form]]]"

definition example_login_data :: form_data where
  "example_login_data = [(''openid.mode'', ''checkid_setup''), (''openid.ns'', ''two'')]"

definition example_avatar :: node where
  "example_avatar = Tag ''a'' [''nav_avatar''] [(''href'', ''/user/76561198000000000'')] []"

definition example_session :: "request \<Rightarrow> response" where
  "example_session =
     stub_http
       [(GET ''https://steamtrades.com/?login'' None,
         \<lparr>url_path = ''/'', body = ''login page''\<rparr>),
        (POST ''https://steamcommunity.com/openid/login'' None (Some example_login_data),
         \<lparr>url_path = ''/'', body = ''answer''\<rparr>)]"

text \<open>
  Three pages that may answer the POST, each with the avatar link in its header: one
  whose first navigation badge is the suspension badge, one where the suspension badge
  comes second, and one without it.
\<close>

definition example_suspended_page :: "node list" where
  "example_suspended_page =
     [Tag ''header'' [] []
        [Tag ''a'' [''nav__button''] [(''href'', ''/suspensions'')]
           [Tag ''span'' [] [] [Text ''Suspensions'']],
         example_avatar]]"

definition example_badges_page :: "node list" where
  "example_badges_page =
     [Tag ''header'' [] []
        [Tag ''a'' [''nav__button''] [(''href'', ''/trades'')] [Text ''Trades''],
         Tag ''a'' [''nav__button''] [(''href'', ''/suspensions'')]
           [Tag ''span'' [] [] [Text ''Suspensions'']],
         example_avatar]]"

definition example_account_page :: "node list" where
  "example_account_page =
     [Tag ''header'' [] []
        [Tag ''a'' [''nav__button''] [(''href'', ''/trades'')] [Text ''Trades''],
         example_avatar]]"

text \<open>
  Two login pages without a form: one whose warning banner has both \<open>Please wait\<close> and
  \<open>public Steam profile\<close> in its text, and one with two navigation badges, the second
  of them the suspension badge.
\<close>

definition example_wait_page :: "node list" where
  "example_wait_page =
     [Tag ''body'' [] []
        [Tag ''div'' [''notification'', ''notification--warning''] []
           [Text ''Please wait a moment. '',
            Tag ''b'' [] [] [Text ''You also need a public Steam profile.'']]]]"

definition example_blocked_page :: "node list" where
  "example_blocked_page =
     [Tag ''header'' [] []
        [Tag ''a'' [''nav__button''] [(''href'', ''/'')] [Text ''Home''],
         Tag ''a'' [''nav__button''] [(''href'', ''/suspensions'')]
           [Tag ''span'' [] [] [Text ''Suspensions'']]]]"

section \<open>Readings of the specification\<close>

text \<open>
  Three notions the specification words differently from the code, defined from its
  words so that the two can be compared.
\<close>

text \<open>
  Some element of the page with that tag and class has the needle in its text (the code
  looks at the first such element only).
\<close>

definition spec_some_has_text :: "string \<Rightarrow> string option \<Rightarrow> string \<Rightarrow> node list \<Rightarrow> bool" where
  "spec_some_has_text tag cls needle soup =
     list_ex (\<lambda>n. contains needle (get_text n)) (find_all tag cls soup)"

text \<open>
  The whitespace-separated tokens of a string: the non-empty pieces between runs of
  white space (the code splits at every single blank). White space is what \<open>str.isspace\<close>
  accepts, as for \<open>str.split()\<close>.
\<close>

definition is_space :: "char \<Rightarrow> bool" where
  "is_space c = (of_char c \<in> {9, 10, 11, 12, 13, 28, 29, 30, 31, 32, 133, 160 :: nat})"

fun split_where :: "(char \<Rightarrow> bool) \<Rightarrow> string \<Rightarrow> string list" where
  "split_where sep [] = [[]]"
| "split_where sep (c # cs) =
     (if sep c then [] # split_where sep cs
      else (case split_where sep cs of
              [] \<Rightarrow> [[c]]
            | w # ws \<Rightarrow> (c # w) # ws))"

definition spec_whitespace_tokens :: "string \<Rightarrow> string list" where
  "spec_whitespace_tokens s = filter (\<lambda>w. w \<noteq> []) (split_where is_space s)"

text \<open>
  The name/value pairs of the inputs of a form, in document order: one pair for every
  input that has both attributes, duplicates of a name included.
\<close>

fun spec_form_pairs :: "node list \<Rightarrow> form_data" where
  "spec_form_pairs [] = []"
| "spec_form_pairs (input # inputs) =
     (case getitem input ''name'' of
        None \<Rightarrow> spec_form_pairs inputs
      | Some n \<Rightarrow>
          (case getitem input ''value'' of
             None \<Rightarrow> spec_form_pairs inputs
           | Some v \<Rightarrow> (n, v) # spec_form_pairs inputs))"

text \<open>
  The cooldown envelope: a JSON object whose key \<open>popup_heading_h2\<close> holds a non-empty
  array, the first element of the array a string, the fourth blank-separated piece of
  the string an integer literal. The value is that integer, \<open>None\<close> for any other body.
\<close>

definition spec_envelope_minutes :: "(string \<Rightarrow> json option) \<Rightarrow> string \<Rightarrow> int option" where
  "spec_envelope_minutes loads text =
     (case loads text of
        Some (JObj kvs) \<Rightarrow>
          (case map_of kvs ''popup_heading_h2'' of
             Some (JArr (JStr heading # rest)) \<Rightarrow>
               (case index (split_on CHR '' '' heading) 3 of
                  None \<Rightarrow> None
                | Some token \<Rightarrow> py_int token)
           | _ \<Rightarrow> None)
      | _ \<Rightarrow> None)"

text \<open>The built-in exceptions: the failures that are no class of the module.\<close>

fun unclassified :: "error \<Rightarrow> bool" where
  "unclassified KeyError = True"
| "unclassified IndexError = True"
| "unclassified TypeError = True"
| "unclassified AttributeError = True"
| "unclassified ValueError = True"
| "unclassified JSONDecodeError = True"
| "unclassified e = False"

section \<open>Facts about the model\<close>

subsection \<open>Splitting and the last piece\<close>

lemma split_on_not_Nil: "split_on sep s \<noteq> []"
  by (induction s) (auto split: list.splits)

lemma split_on_no_sep: "sep \<notin> set s \<Longrightarrow> split_on sep s = [s]"
  by (induction s) auto

lemma split_on_single: "length (split_on sep s) = 1 \<Longrightarrow> sep \<notin> set s"
  by (induction s) (auto split: list.splits if_splits simp: split_on_not_Nil)

lemma basename_last_split: "basename p = last (split_on CHR ''/'' p)"
proof (induction p)
  case Nil
  show ?case by (simp add: basename_def)
next
  case (Cons c cs)
  obtain w ws where ws: "split_on CHR ''/'' cs = w # ws"
    using split_on_not_Nil by (cases "split_on CHR ''/'' cs") auto
  show ?case
  proof (cases "CHR ''/'' \<in> set cs")
    case True
    then have "ws \<noteq> []"
      using split_on_single [of "CHR ''/''" cs] ws by auto
    moreover from True have "takeWhile (\<lambda>c. c \<noteq> CHR ''/'') (rev cs @ [c]) =
        takeWhile (\<lambda>c. c \<noteq> CHR ''/'') (rev cs)"
      by (intro takeWhile_append1 [where x = "CHR ''/''"]) auto
    ultimately show ?thesis
      using Cons ws by (simp add: basename_def)
  next
    case False
    then have one: "split_on CHR ''/'' cs = [cs]"
      by (rule split_on_no_sep)
    from False have "takeWhile (\<lambda>c. c \<noteq> CHR ''/'') (rev cs @ [c]) =
        rev cs @ takeWhile (\<lambda>c. c \<noteq> CHR ''/'') [c]"
      by (intro takeWhile_append2) auto
    with one show ?thesis
      by (simp add: basename_def)
  qed
qed

subsection \<open>Searching the markup\<close>

lemma find_first_None_iff:
  "find_first tag cls soup = None \<longleftrightarrow> (\<forall>n \<in> set (descendants soup). \<not> matches tag cls n)"
  by (auto simp: find_first_def find_None_iff)

lemma find_first_Some_ex:
  "(\<exists>n \<in> set (descendants soup). matches tag cls n) \<longleftrightarrow> find_first tag cls soup \<noteq> None"
  by (auto simp: find_first_None_iff)

subsection \<open>The fields collected from a form\<close>

lemma bump_fields_pairs:
  "bump_fields inputs acc = Some data \<Longrightarrow>
     map_of data k = (case map_of (rev (spec_form_pairs inputs)) k of
                        None \<Rightarrow> map_of acc k | Some v \<Rightarrow> Some v)"
proof (induction inputs arbitrary: acc)
  case Nil
  then show ?case by simp
next
  case (Cons i inputs)
  then show ?case
    by (auto split: option.splits simp add: update_conv' map_add_def)
qed

subsection \<open>Reading the minutes left\<close>

lemma json_key_Inr:
  "json_key v key = Inr w \<longleftrightarrow> (\<exists>kvs. v = JObj kvs \<and> map_of kvs key = Some w)"
  by (cases v) (auto split: option.splits)

lemma json_key_Inl: "json_key v key = Inl e \<Longrightarrow> e = KeyError \<or> e = TypeError"
  by (cases v) (auto split: option.splits)

lemma json_index_Inl:
  "json_index v i = Inl e \<Longrightarrow> e = KeyError \<or> e = IndexError \<or> e = TypeError"
  by (cases v) (auto split: option.splits)

lemma json_index_0_JStr:
  "json_index v 0 = Inr (JStr s) \<longleftrightarrow>
     (\<exists>rest. v = JArr (JStr s # rest)) \<or> (\<exists>c cs. v = JStr (c # cs) \<and> s = [c])"
  by (cases v) (auto simp: index_def split: option.splits if_splits simp: neq_Nil_conv)

lemma minutes_left_Inl: "minutes_left loads text = Inl e \<Longrightarrow> unclassified e"
  unfolding minutes_left_def
  by (auto split: option.splits sum.splits json.splits
           dest!: json_key_Inl json_index_Inl)

lemma minutes_left_Inr:
  "minutes_left loads text = Inr n \<longleftrightarrow> spec_envelope_minutes loads text = Some n"
proof
  assume "minutes_left loads text = Inr n"
  then obtain v heading s token where
    v: "loads text = Some v" and
    h: "json_key v ''popup_heading_h2'' = Inr heading" and
    s: "json_index heading 0 = Inr (JStr s)" and
    t: "index (split_on CHR '' '' s) 3 = Some token" and
    n: "py_int token = Some n"
    unfolding minutes_left_def
    by (auto split: option.splits sum.splits json.splits)
  from h obtain kvs where kvs: "v = JObj kvs" "map_of kvs ''popup_heading_h2'' = Some heading"
    by (auto simp: json_key_Inr)
  from s consider rest where "heading = JArr (JStr s # rest)"
    | c cs where "heading = JStr (c # cs)" "s = [c]"
    by (auto simp: json_index_0_JStr)
  then show "spec_envelope_minutes loads text = Some n"
  proof cases
    case 1
    with v kvs t n show ?thesis
      by (simp add: spec_envelope_minutes_def)
  next
    case 2
    with t show ?thesis
      by (simp add: index_def split: if_splits)
  qed
next
  assume "spec_envelope_minutes loads text = Some n"
  then show "minutes_left loads text = Inr n"
    unfolding spec_envelope_minutes_def minutes_left_def
    by (auto split: option.splits json.splits list.splits if_splits simp: index_def)
qed

text \<open>
  A heading whose piece at index 3 starts with the separator 28 is no integer for \<open>int\<close>:
  the answer is ValueError.
\<close>

lemma minutes_left_separator:
  "minutes_left
     (stub_loads
        [(''answer'',
          JObj [(''popup_heading_h2'',
                 JArr [JStr (''Please wait another '' @ [CHR 0x1C] @ ''7 minutes'')])])])
     ''answer'' = Inl ValueError"
  by (simp add: minutes_left_def stub_loads_def index_def py_int_def strip_def
        is_int_space_def max_str_digits_def unsigned_literal_def is_digit_def)

subsection \<open>The example page\<close>

lemma example_bump_payload:
  "bump_payload example_trade (example_parse (html example_trade)) = Inr example_payload"
  by (simp add: bump_payload_def example_trade_def example_parse_def example_page_def
        example_payload_def stub_parse_def find_first_def find_all_def)

lemma py_int_7: "py_int ''7'' = Some 7"
  by (simp add: py_int_def strip_def is_int_space_def max_str_digits_def unsigned_literal_def
        is_digit_def digit_val_def)

text \<open>The separators 28 to 31 are not dropped, the no-break space is.\<close>

lemma py_int_separator: "py_int [CHR 0x1C, CHR ''7''] = None"
  by (simp add: py_int_def strip_def is_int_space_def max_str_digits_def unsigned_literal_def
        is_digit_def)

lemma py_int_no_break_space: "py_int [CHR 0xA0, CHR ''7''] = Some 7"
  by (simp add: py_int_def strip_def is_int_space_def max_str_digits_def unsigned_literal_def
        is_digit_def digit_val_def)

subsection \<open>The dictionary returned by do_login\<close>

lemma login_fields_map_of:
  "map_of (login_fields inputs acc) k =
     (case map_of (rev (spec_form_pairs inputs)) k of
        None \<Rightarrow> map_of acc k
      | Some v \<Rightarrow> Some v)"
  by (induction inputs arbitrary: acc)
     (auto split: option.splits simp add: update_conv' map_add_def)

lemma login_fields_distinct:
  "distinct (map fst acc) \<Longrightarrow> distinct (map fst (login_fields inputs acc))"
  by (induction inputs arbitrary: acc) (auto split: option.splits simp: distinct_update)

lemma dict_update_map_of:
  "map_of (dict_update d data) k =
     (case map_of (rev data) k of
        None \<Rightarrow> map_of d k
      | Some v \<Rightarrow> Some (PStr v))"
  unfolding dict_update_def
  by (induction data arbitrary: d)
     (auto split: option.splits simp add: update_conv' map_add_def)

lemma dict_update_distinct:
  "distinct (map fst d) \<Longrightarrow> distinct (map fst (dict_update d data))"
  unfolding dict_update_def
  by (induction data arbitrary: d) (auto simp: distinct_update)

lemma map_of_rev_distinct:
  assumes "distinct (map fst xs)"
  shows "map_of (rev xs) k = map_of xs k"
proof -
  from assms have "distinct (map fst (rev xs))"
    by (simp add: rev_map [symmetric])
  with assms have "map_of (rev xs) = map_of xs"
    by (simp add: map_of_inject_set)
  then show ?thesis by simp
qed

lemma do_login_with_form:
  assumes "find_first ''form'' None (parse (body (http (GET (login_page self) (headers self)))))
             = Some form"
  shows "do_login parse http self =
    (post_login
       (parse (body (http (POST (openid_url self @ ''/login'') (headers self)
          (Some (login_fields (find_all ''input'' None (contents form)) []))))))
       (login_fields (find_all ''input'' None (contents form)) []),
     [GET (login_page self) (headers self),
      POST (openid_url self @ ''/login'') (headers self)
        (Some (login_fields (find_all ''input'' None (contents form)) []))])"
  using assms by (simp add: do_login_def Let_def)

lemma do_login_Inr_form:
  assumes "do_login parse http self = (Inr result, requests)"
  shows "\<exists>form. find_first ''form'' None
           (parse (body (http (GET (login_page self) (headers self))))) = Some form"
  using assms by (auto simp: do_login_def Let_def split: option.splits)

lemma post_login_Inr:
  "post_login page data = Inr result \<longleftrightarrow>
     (\<exists>avatar href steamid.
        find_first ''a'' (Some ''nav_avatar'') page = Some avatar \<and>
        \<not> has_text (find_first ''a'' (Some ''nav__button'') page) ''Suspensions'' \<and>
        getitem avatar ''href'' = Some href \<and>
        index (split_on CHR ''/'' href) 2 = Some steamid \<and>
        result = dict_update [(''success'', PBool True), (''steamid'', PStr steamid)] data)"
  by (auto simp: post_login_def Let_def split: option.splits if_splits)

lemma payload_map_of:
  "map_of (dict_update [(''success'', PBool True), (''steamid'', PStr steamid)]
             (login_fields inputs [])) k =
     (case map_of (rev (spec_form_pairs inputs)) k of
        Some v \<Rightarrow> Some (PStr v)
      | None \<Rightarrow>
          if k = ''success'' then Some (PBool True)
          else if k = ''steamid'' then Some (PStr steamid)
          else None)"
proof -
  have "distinct (map fst (login_fields inputs []))"
    by (rule login_fields_distinct) simp
  then have "map_of (rev (login_fields inputs [])) k = map_of (login_fields inputs []) k"
    by (rule map_of_rev_distinct)
  then show ?thesis
    by (simp add: dict_update_map_of login_fields_map_of split: option.splits)
qed

lemma payload_distinct:
  "distinct (map fst (dict_update [(''success'', PBool True), (''steamid'', PStr steamid)] data))"
  by (rule dict_update_distinct) simp

subsection \<open>The example login\<close>

lemma example_login_fields:
  "login_fields (find_all ''input'' None (contents example_login_form)) [] = example_login_data"
  by (simp add: example_login_form_def example_login_data_def find_all_def)

lemma example_find_form:
  "find_first ''form'' None
     (stub_parse [(''login page'', example_login_page), (''answer'', page)]
        (body (example_session (GET (login_page default_plugin) (headers default_plugin)))))
   = Some example_login_form"
  by (simp add: stub_parse_def example_session_def stub_http_def default_plugin_def
        find_first_def example_login_page_def example_login_form_def)

lemma example_answer:
  "stub_parse [(''login page'', example_login_page), (''answer'', page)]
     (body (example_session
        (POST (openid_url default_plugin @ ''/login'') (headers default_plugin)
           (Some example_login_data)))) = page"
  by (simp add: stub_parse_def example_session_def stub_http_def default_plugin_def)

lemma example_do_login:
  "do_login (stub_parse [(''login page'', example_login_page), (''answer'', page)])
     example_session default_plugin =
   (post_login page example_login_data,
    [GET ''https://steamtrades.com/?login'' None,
     POST ''https://steamcommunity.com/openid/login'' None (Some example_login_data)])"
  using do_login_with_form
    [where parse = "stub_parse [(''login page'', example_login_page), (''answer'', page)]"
       and http = example_session and self = default_plugin and form = example_login_form,
     OF example_find_form]
  by (simp add: example_login_fields example_answer)
     (simp add: default_plugin_def)

lemma example_account_run:
  "do_login
     (stub_parse [(''login page'', example_login_page), (''answer'', example_account_page)])
     example_session default_plugin =
   (Inr [(''success'', PBool True), (''steamid'', PStr ''76561198000000000''),
         (''openid.mode'', PStr ''checkid_setup''), (''openid.ns'', PStr ''two'')],
    [GET ''https://steamtrades.com/?login'' None,
     POST ''https://steamcommunity.com/openid/login'' None (Some example_login_data)])"
  by (simp add: example_do_login
        find_first_def
        post_login_def has_text_def Let_def example_account_page_def example_avatar_def
        example_login_data_def index_def dict_update_def)

section \<open>get_trade_info: id and title come from the resolved URL\<close>

text \<open>
  Claim C6. Every call of \<open>get_trade_info\<close> sends one GET for
  \<open>{server}/trade/{trade_id}/\<close> and reads the path of the URL the response resolved to.
  The id of the returned \<open>TradeInfo\<close> is the piece at index 2 of that path split at
  slashes (the second segment of the path, never the id the caller passed); the title is
  the last piece with every dash turned into a space, cut to its first 22 characters,
  with \<open>...\<close> appended whatever its length. A path with fewer than three pieces raises
  IndexError, so nothing is returned then.
\<close>

theorem get_trade_info_result:
  "get_trade_info http self trade_id =
     (let request = GET (server self @ ''/trade/'' @ trade_id @ ''/'') (headers self);
          segments = split_on CHR ''/'' (url_path (http request))
      in (if 2 < length segments
            then Inr \<lparr>id' = segments ! 2,
                      title = take 22 (replace_dash (last segments)) @ ''...'',
                      html = body (http request)\<rparr>
          else Inl IndexError,
          [request]))"
  by (simp add: get_trade_info_def Let_def index_def basename_last_split)

text \<open>
  The example of the claim: the caller passes a slug, the response resolves to
  \<open>/trade/123/some-long-trade-title-here\<close>.
\<close>

theorem get_trade_info_example:
  "get_trade_info
     (stub_http [(GET ''https://www.steamtrades.com/trade/Some-Slug/'' None,
                  \<lparr>url_path = ''/trade/123/some-long-trade-title-here'', body = ''page''\<rparr>)])
     default_plugin ''Some-Slug'' =
   (Inr \<lparr>id' = ''123'', title = ''some long trade title ...'', html = ''page''\<rparr>,
    [GET ''https://www.steamtrades.com/trade/Some-Slug/'' None])"
  using get_trade_info_result
    [of "stub_http [(GET ''https://www.steamtrades.com/trade/Some-Slug/'' None,
                  \<lparr>url_path = ''/trade/123/some-long-trade-title-here'', body = ''page''\<rparr>)]"
        default_plugin "''Some-Slug''"]
  by (simp add: stub_http_def default_plugin_def replace_dash_def Let_def)

section \<open>bump: a page without the avatar is refused before any request\<close>

text \<open>
  Claim C4. When no element of the parsed \<open>html\<close> of a \<open>TradeInfo\<close> is an \<open>a\<close> tag of
  class \<open>nav_avatar\<close>, \<open>bump\<close> raises LoginError and has sent no request: the form is
  not looked for and no token is read.
\<close>

theorem bump_not_logged_in:
  assumes "\<forall>n \<in> set (descendants (parse (html trade_info))). \<not> matches ''a'' (Some ''nav_avatar'') n"
  shows "bump parse loads http self trade_info = (Inl (LoginError ''User is not logged in''), [])"
proof -
  from assms have "find_first ''a'' (Some ''nav_avatar'') (parse (html trade_info)) = None"
    by (simp only: find_first_None_iff)
  then show ?thesis
    by (simp add: bump_def bump_payload_def)
qed

theorem bump_not_logged_in_witness:
  "bump
     (stub_parse
        [(''trade page'',
          [Tag ''form'' [] []
             [Tag ''input'' [] [(''name'', ''code''), (''value'', ''c0de'')] [],
              Tag ''input'' [] [(''name'', ''xsrf_token''), (''value'', ''t0ken'')] []]])])
     (stub_loads []) (stub_http []) default_plugin
     \<lparr>id' = ''123'', title = ''some title...'', html = ''trade page''\<rparr> =
   (Inl (LoginError ''User is not logged in''), [])"
proof -
  have "\<forall>n \<in> set (descendants
          (stub_parse
             [(''trade page'',
               [Tag ''form'' [] []
                  [Tag ''input'' [] [(''name'', ''code''), (''value'', ''c0de'')] [],
                   Tag ''input'' [] [(''name'', ''xsrf_token''), (''value'', ''t0ken'')] []]])]
             (html \<lparr>id' = ''123'', title = ''some title...'', html = ''trade page''\<rparr>))).
          \<not> matches ''a'' (Some ''nav_avatar'') n"
    by (simp add: stub_parse_def)
  then show ?thesis
    by (rule bump_not_logged_in)
qed

section \<open>bump: a closed trade, and a page without a form\<close>

text \<open>
  Claim C8. For a \<open>TradeInfo\<close> whose parsed \<open>html\<close> has the avatar link: when some
  element is a \<open>div\<close> of class \<open>js_trade_open\<close>, \<open>bump\<close> raises TradeClosedError with the
  id and the title of the \<open>TradeInfo\<close> it was given; when there is no such element and no
  \<open>form\<close> element either, it raises NoTradesError, another exception. In both cases no
  request has been sent.
\<close>

theorem bump_closed_or_no_trades:
  assumes "\<exists>n \<in> set (descendants (parse (html trade_info))). matches ''a'' (Some ''nav_avatar'') n"
  shows "((\<exists>n \<in> set (descendants (parse (html trade_info))).
             matches ''div'' (Some ''js_trade_open'') n) \<longrightarrow>
          bump parse loads http self trade_info =
            (Inl (TradeClosedError (id' trade_info) (title trade_info)
                    (''Trade '' @ id' trade_info @ '' is closed'')), [])) \<and>
         ((\<forall>n \<in> set (descendants (parse (html trade_info))).
             \<not> matches ''div'' (Some ''js_trade_open'') n \<and> \<not> matches ''form'' None n) \<longrightarrow>
          bump parse loads http self trade_info =
            (Inl (NoTradesError ''No trades available to bump''), []))"
proof -
  let ?soup = "parse (html trade_info)"
  from assms have avatar: "find_first ''a'' (Some ''nav_avatar'') ?soup \<noteq> None"
    using find_first_Some_ex by blast
  have closed: "bump parse loads http self trade_info =
        (Inl (TradeClosedError (id' trade_info) (title trade_info)
                (''Trade '' @ id' trade_info @ '' is closed'')), [])"
    if "\<exists>n \<in> set (descendants ?soup). matches ''div'' (Some ''js_trade_open'') n"
  proof -
    from that have "find_first ''div'' (Some ''js_trade_open'') ?soup \<noteq> None"
      using find_first_Some_ex by blast
    with avatar show ?thesis
      by (simp add: bump_def bump_payload_def)
  qed
  have none: "bump parse loads http self trade_info =
        (Inl (NoTradesError ''No trades available to bump''), [])"
    if "\<forall>n \<in> set (descendants ?soup).
          \<not> matches ''div'' (Some ''js_trade_open'') n \<and> \<not> matches ''form'' None n"
  proof -
    from that have "find_first ''div'' (Some ''js_trade_open'') ?soup = None"
      and "find_first ''form'' None ?soup = None"
      by (simp_all add: find_first_None_iff)
    with avatar show ?thesis
      by (simp add: bump_def bump_payload_def)
  qed
  from closed none show ?thesis by blast
qed

theorem bump_closed_or_no_trades_witness:
  "bump
     (stub_parse
        [(''closed'', [Tag ''a'' [''nav_avatar''] [(''href'', ''/user/7'')] [],
                       Tag ''div'' [''btn'', ''js_trade_open''] [] [Text ''Open Trade'']]),
         (''empty'', [Tag ''a'' [''nav_avatar''] [(''href'', ''/user/7'')] []])])
     (stub_loads []) (stub_http []) default_plugin
     \<lparr>id' = ''123'', title = ''some title...'', html = ''closed''\<rparr> =
   (Inl (TradeClosedError ''123'' ''some title...'' ''Trade 123 is closed''), []) \<and>
   bump
     (stub_parse
        [(''closed'', [Tag ''a'' [''nav_avatar''] [(''href'', ''/user/7'')] [],
                       Tag ''div'' [''btn'', ''js_trade_open''] [] [Text ''Open Trade'']]),
         (''empty'', [Tag ''a'' [''nav_avatar''] [(''href'', ''/user/7'')] []])])
     (stub_loads []) (stub_http []) default_plugin
     \<lparr>id' = ''123'', title = ''some title...'', html = ''empty''\<rparr> =
   (Inl (NoTradesError ''No trades available to bump''), [])"
  using
    bump_closed_or_no_trades
      [of "stub_parse
        [(''closed'', [Tag ''a'' [''nav_avatar''] [(''href'', ''/user/7'')] [],
                       Tag ''div'' [''btn'', ''js_trade_open''] [] [Text ''Open Trade'']]),
         (''empty'', [Tag ''a'' [''nav_avatar''] [(''href'', ''/user/7'')] []])]"
        "\<lparr>id' = ''123'', title = ''some title...'', html = ''closed''\<rparr>"
        "stub_loads []" "stub_http []" default_plugin]
    bump_closed_or_no_trades
      [of "stub_parse
        [(''closed'', [Tag ''a'' [''nav_avatar''] [(''href'', ''/user/7'')] [],
                       Tag ''div'' [''btn'', ''js_trade_open''] [] [Text ''Open Trade'']]),
         (''empty'', [Tag ''a'' [''nav_avatar''] [(''href'', ''/user/7'')] []])]"
        "\<lparr>id' = ''123'', title = ''some title...'', html = ''empty''\<rparr>"
        "stub_loads []" "stub_http []" default_plugin]
  by (simp add: stub_parse_def)

section \<open>bump: a form without the two tokens\<close>

text \<open>
  Claim C9. When \<open>bump\<close> has collected the fields of the form (the page has the avatar
  link, no open-trade marker and a form, and every input has a name and a value) and the
  fields have no \<open>code\<close> key or no \<open>xsrf_token\<close> key, the call ends with KeyError: none
  of the exception classes of the module, no boolean, and no request sent.
\<close>

theorem bump_missing_token:
  assumes "\<exists>n \<in> set (descendants (parse (html trade_info))). matches ''a'' (Some ''nav_avatar'') n"
    and "\<forall>n \<in> set (descendants (parse (html trade_info))). \<not> matches ''div'' (Some ''js_trade_open'') n"
    and "find_first ''form'' None (parse (html trade_info)) = Some form"
    and "bump_fields (find_all ''input'' None (contents form)) [] = Some data"
    and "map_of data ''code'' = None \<or> map_of data ''xsrf_token'' = None"
  shows "bump parse loads http self trade_info = (Inl KeyError, [])"
proof -
  let ?soup = "parse (html trade_info)"
  from assms(1) have "find_first ''a'' (Some ''nav_avatar'') ?soup \<noteq> None"
    using find_first_Some_ex by blast
  moreover from assms(2) have "find_first ''div'' (Some ''js_trade_open'') ?soup = None"
    using find_first_None_iff by blast
  ultimately have "bump_payload trade_info ?soup = Inl KeyError"
    using assms(3-5) by (auto simp add: bump_payload_def split: option.splits)
  then show ?thesis
    by (simp add: bump_def)
qed

theorem bump_missing_token_witness:
  "bump
     (stub_parse
        [(''no token'',
          [Tag ''a'' [''nav_avatar''] [(''href'', ''/user/7'')] [],
           Tag ''form'' [] []
             [Tag ''input'' [] [(''name'', ''code''), (''value'', ''c0de'')] []]])])
     (stub_loads []) (stub_http []) default_plugin
     \<lparr>id' = ''123'', title = ''some title...'', html = ''no token''\<rparr> =
   (Inl KeyError, [])"
proof -
  let ?form = "Tag ''form'' [] [] [Tag ''input'' [] [(''name'', ''code''), (''value'', ''c0de'')] []]"
  let ?parse = "stub_parse
        [(''no token'', [Tag ''a'' [''nav_avatar''] [(''href'', ''/user/7'')] [], ?form])]"
  let ?trade = "\<lparr>id' = ''123'', title = ''some title...'', html = ''no token''\<rparr>"
  have avatar: "\<exists>n \<in> set (descendants (?parse (html ?trade))). matches ''a'' (Some ''nav_avatar'') n"
    by (simp add: stub_parse_def)
  have marker: "\<forall>n \<in> set (descendants (?parse (html ?trade))).
      \<not> matches ''div'' (Some ''js_trade_open'') n"
    by (simp add: stub_parse_def)
  have form: "find_first ''form'' None (?parse (html ?trade)) = Some ?form"
    by (simp add: stub_parse_def find_first_def)
  have fields: "bump_fields (find_all ''input'' None (contents ?form)) [] = Some [(''code'', ''c0de'')]"
    by (simp add: find_all_def)
  have missing: "map_of [(''code'', ''c0de'')] ''code'' = None \<or>
      map_of [(''code'', ''c0de'')] ''xsrf_token'' = None"
    by simp
  show ?thesis
    by (rule bump_missing_token [where parse = ?parse and trade_info = ?trade, OF avatar marker form fields missing])
qed

section \<open>bump: the cooldown answer\<close>

text \<open>
  Claim C3, as amended. When \<open>bump\<close> has sent its POST and the body of the answer
  contains \<open>Please wait another\<close>, and the body decodes to a JSON object whose
  \<open>popup_heading_h2\<close> entry is an array that starts with a string, and the piece at
  index 3 of that string split at every single blank reads as an integer, then \<open>bump\<close>
  raises TradeNotReadyError with that integer as the minutes left and with the id and the
  title of the \<open>TradeInfo\<close>.
\<close>

theorem bump_cooldown:
  assumes "bump_payload trade_info (parse (html trade_info)) = Inr payload"
    and "text = body (http (POST (server self @ ''/'' @ bump_script self) (headers self) (Some payload)))"
    and "contains ''Please wait another'' text"
    and "loads text = Some (JObj kvs)"
    and "map_of kvs ''popup_heading_h2'' = Some (JArr (JStr heading # rest))"
    and "index (split_on CHR '' '' heading) 3 = Some token"
    and "py_int token = Some minutes"
  shows "bump parse loads http self trade_info =
    (Inl (TradeNotReadyError (id' trade_info) (title trade_info) minutes
            (''Trade '' @ id' trade_info @ '' is not ready'')),
     [POST (server self @ ''/'' @ bump_script self) (headers self) (Some payload)])"
proof -
  from assms(4-7) have "spec_envelope_minutes loads text = Some minutes"
    by (simp add: spec_envelope_minutes_def)
  then have "minutes_left loads text = Inr minutes"
    by (simp only: minutes_left_Inr)
  with assms(1-3) show ?thesis
    by (simp add: bump_def Let_def)
qed

text \<open>
  The example of the claim: the body
  \<^verbatim>\<open>{"popup_heading_h2":["Please wait another 7 minutes"]}\<close> gives 7 minutes.
\<close>

theorem bump_cooldown_example:
  \<open>bump example_parse
     (stub_loads
        [(''{"popup_heading_h2":["Please wait another 7 minutes"]}'',
          JObj [(''popup_heading_h2'', JArr [JStr ''Please wait another 7 minutes''])])])
     (stub_http
        [(example_request,
          \<lparr>url_path = ''/ajax.php'',
             body = ''{"popup_heading_h2":["Please wait another 7 minutes"]}''\<rparr>)])
     default_plugin example_trade =
   (Inl (TradeNotReadyError ''123'' ''some title...'' 7 ''Trade 123 is not ready''),
    [example_request])\<close>
proof -
  let ?text = \<open>''{"popup_heading_h2":["Please wait another 7 minutes"]}''\<close>
  let ?loads = "stub_loads
        [(?text, JObj [(''popup_heading_h2'', JArr [JStr ''Please wait another 7 minutes''])])]"
  let ?http = "stub_http [(example_request, \<lparr>url_path = ''/ajax.php'', body = ?text\<rparr>)]"
  have answer: "?text = body (?http (POST (server default_plugin @ ''/'' @ bump_script default_plugin)
      (headers default_plugin) (Some example_payload)))"
    by (simp add: stub_http_def example_request_def default_plugin_def)
  have sub: "contains ''Please wait another'' ?text"
    by simp
  have loads: "?loads ?text =
      Some (JObj [(''popup_heading_h2'', JArr [JStr ''Please wait another 7 minutes''])])"
    by (simp add: stub_loads_def)
  have key: "map_of [(''popup_heading_h2'', JArr [JStr ''Please wait another 7 minutes''])]
      ''popup_heading_h2'' = Some (JArr (JStr ''Please wait another 7 minutes'' # []))"
    by simp
  have token: "index (split_on CHR '' '' ''Please wait another 7 minutes'') 3 = Some ''7''"
    by (simp add: index_def)
  have minutes: "py_int ''7'' = Some 7"
    by (simp add: py_int_def strip_def is_int_space_def max_str_digits_def unsigned_literal_def
          is_digit_def digit_val_def)
  show ?thesis
    using bump_cooldown [where parse = example_parse and http = ?http and loads = ?loads
        and self = default_plugin,
        OF example_bump_payload answer sub loads key token minutes]
    by (simp add: example_trade_def example_request_def default_plugin_def)
qed

text \<open>
  The claim as written speaks of the fourth whitespace-separated token. With two blanks
  before the number that token is \<open>7\<close>, but the code splits at every single blank, finds
  the empty piece at index 3 and ends with ValueError.
\<close>

theorem bump_cooldown_two_blanks:
  \<open>bump example_parse
     (stub_loads
        [(''{"popup_heading_h2":["Please wait another  7 minutes"]}'',
          JObj [(''popup_heading_h2'', JArr [JStr ''Please wait another  7 minutes''])])])
     (stub_http
        [(example_request,
          \<lparr>url_path = ''/ajax.php'',
             body = ''{"popup_heading_h2":["Please wait another  7 minutes"]}''\<rparr>)])
     default_plugin example_trade =
   (Inl ValueError, [example_request]) \<and>
   contains ''Please wait another'' ''{"popup_heading_h2":["Please wait another  7 minutes"]}'' \<and>
   index (spec_whitespace_tokens ''Please wait another  7 minutes'') 3 = Some ''7'' \<and>
   py_int ''7'' = Some 7\<close>
proof -
  have "index (spec_whitespace_tokens ''Please wait another  7 minutes'') 3 = Some ''7''"
    by (simp add: spec_whitespace_tokens_def index_def is_space_def)
  moreover have "py_int [] = None"
    by (simp add: py_int_def strip_def)
  ultimately show ?thesis
    using example_bump_payload
    by (simp add: bump_def Let_def stub_http_def stub_loads_def minutes_left_def index_def
          example_request_def default_plugin_def py_int_7)
qed

section \<open>bump: the confirmation request\<close>

text \<open>
  Claim C5, as amended. When \<open>bump\<close> has sent its POST and the body of the answer does
  not contain \<open>Please wait another\<close>, it sends a second request, a POST without data to
  \<open>{server}/trades\<close>, and returns whether the id of the \<open>TradeInfo\<close> occurs in the body
  of that answer: \<open>True\<close> or \<open>False\<close>, nothing else.
\<close>

theorem bump_confirmation:
  assumes "bump_payload trade_info (parse (html trade_info)) = Inr payload"
    and "\<not> contains ''Please wait another''
           (body (http (POST (server self @ ''/'' @ bump_script self) (headers self) (Some payload))))"
  shows "bump parse loads http self trade_info =
    (Inr (contains (id' trade_info)
            (body (http (POST (server self @ ''/trades'') (headers self) None)))),
     [POST (server self @ ''/'' @ bump_script self) (headers self) (Some payload),
      POST (server self @ ''/trades'') (headers self) None])"
  using assms by (simp add: bump_def Let_def)

theorem bump_confirmation_witness:
  "bump example_parse (stub_loads [])
     (stub_http
        [(example_request, \<lparr>url_path = ''/ajax.php'', body = ''<html>bumped</html>''\<rparr>),
         (POST ''https://www.steamtrades.com/trades'' None None,
          \<lparr>url_path = ''/trades'', body = ''<a href=/trade/123/some-title>some title</a>''\<rparr>)])
     default_plugin example_trade =
   (Inr True, [example_request, POST ''https://www.steamtrades.com/trades'' None None]) \<and>
   bump example_parse (stub_loads [])
     (stub_http
        [(example_request, \<lparr>url_path = ''/ajax.php'', body = ''<html>bumped</html>''\<rparr>),
         (POST ''https://www.steamtrades.com/trades'' None None,
          \<lparr>url_path = ''/trades'', body = ''<a href=/trade/456/other>other</a>''\<rparr>)])
     default_plugin example_trade =
   (Inr False, [example_request, POST ''https://www.steamtrades.com/trades'' None None])"
proof -
  let ?http1 = "stub_http
        [(example_request, \<lparr>url_path = ''/ajax.php'', body = ''<html>bumped</html>''\<rparr>),
         (POST ''https://www.steamtrades.com/trades'' None None,
          \<lparr>url_path = ''/trades'', body = ''<a href=/trade/123/some-title>some title</a>''\<rparr>)]"
  let ?http2 = "stub_http
        [(example_request, \<lparr>url_path = ''/ajax.php'', body = ''<html>bumped</html>''\<rparr>),
         (POST ''https://www.steamtrades.com/trades'' None None,
          \<lparr>url_path = ''/trades'', body = ''<a href=/trade/456/other>other</a>''\<rparr>)]"
  have no1: "\<not> contains ''Please wait another''
      (body (?http1 (POST (server default_plugin @ ''/'' @ bump_script default_plugin)
         (headers default_plugin) (Some example_payload))))"
    by (simp add: stub_http_def example_request_def default_plugin_def)
  have no2: "\<not> contains ''Please wait another''
      (body (?http2 (POST (server default_plugin @ ''/'' @ bump_script default_plugin)
         (headers default_plugin) (Some example_payload))))"
    by (simp add: stub_http_def example_request_def default_plugin_def)
  show ?thesis
    using bump_confirmation [where parse = example_parse and http = ?http1 and loads = "stub_loads []"
        and self = default_plugin, OF example_bump_payload no1]
      bump_confirmation [where parse = example_parse and http = ?http2 and loads = "stub_loads []"
        and self = default_plugin, OF example_bump_payload no2]
    by (simp add: stub_http_def example_request_def example_trade_def default_plugin_def)
qed

text \<open>
  The claim as written speaks of a GET. A session that serves the listing for a GET of
  \<open>{server}/trades\<close> only is never asked for it: the request sent is a POST, and the
  result is \<open>False\<close> although the listing names the trade.
\<close>

theorem bump_confirmation_is_a_post:
  "bump example_parse (stub_loads [])
     (stub_http
        [(example_request, \<lparr>url_path = ''/ajax.php'', body = ''<html>bumped</html>''\<rparr>),
         (GET ''https://www.steamtrades.com/trades'' None,
          \<lparr>url_path = ''/trades'', body = ''<a href=/trade/123/some-title>some title</a>''\<rparr>)])
     default_plugin example_trade =
   (Inr False, [example_request, POST ''https://www.steamtrades.com/trades'' None None])"
  using example_bump_payload
  by (simp add: bump_def Let_def stub_http_def example_request_def example_trade_def
        default_plugin_def)

section \<open>bump: a cooldown answer that is not the envelope\<close>

text \<open>
  Claim C10, as amended. When \<open>bump\<close> has sent its POST and the body of the answer
  contains \<open>Please wait another\<close> but is not the cooldown envelope (a JSON object whose
  \<open>popup_heading_h2\<close> entry is a non-empty array starting with a string whose piece at
  index 3, split at single blanks, reads as an integer), \<open>bump\<close> ends with a built-in
  exception: JSONDecodeError, KeyError, IndexError, TypeError, AttributeError or
  ValueError. It returns no boolean and raises no TradeNotReadyError, and no second
  request is sent.
\<close>

theorem bump_malformed_cooldown:
  assumes "bump_payload trade_info (parse (html trade_info)) = Inr payload"
    and "contains ''Please wait another''
           (body (http (POST (server self @ ''/'' @ bump_script self) (headers self) (Some payload))))"
    and "spec_envelope_minutes loads
           (body (http (POST (server self @ ''/'' @ bump_script self) (headers self) (Some payload)))) = None"
  shows "\<exists>e. unclassified e \<and>
           bump parse loads http self trade_info =
             (Inl e, [POST (server self @ ''/'' @ bump_script self) (headers self) (Some payload)])"
proof -
  let ?text = "body (http (POST (server self @ ''/'' @ bump_script self) (headers self) (Some payload)))"
  from assms(3) have "\<And>n. minutes_left loads ?text \<noteq> Inr n"
    by (simp add: minutes_left_Inr)
  then obtain e where e: "minutes_left loads ?text = Inl e"
    by (cases "minutes_left loads ?text") auto
  then have "unclassified e"
    by (rule minutes_left_Inl)
  moreover from assms(1,2) e have "bump parse loads http self trade_info =
      (Inl e, [POST (server self @ ''/'' @ bump_script self) (headers self) (Some payload)])"
    by (simp add: bump_def Let_def)
  ultimately show ?thesis by blast
qed

theorem bump_malformed_cooldown_witness:
  \<open>\<exists>e. unclassified e \<and>
      bump example_parse (stub_loads [])
        (stub_http
           [(example_request,
             \<lparr>url_path = ''/ajax.php'', body = ''<p>Please wait another 7 minutes</p>''\<rparr>)])
        default_plugin example_trade =
      (Inl e, [example_request])\<close>
proof -
  let ?http = "stub_http
           [(example_request,
             \<lparr>url_path = ''/ajax.php'', body = ''<p>Please wait another 7 minutes</p>''\<rparr>)]"
  have sub: "contains ''Please wait another''
      (body (?http (POST (server default_plugin @ ''/'' @ bump_script default_plugin)
         (headers default_plugin) (Some example_payload))))"
    by (simp add: stub_http_def example_request_def default_plugin_def)
  have none: "spec_envelope_minutes (stub_loads [])
      (body (?http (POST (server default_plugin @ ''/'' @ bump_script default_plugin)
         (headers default_plugin) (Some example_payload)))) = None"
    by (simp add: spec_envelope_minutes_def stub_loads_def)
  show ?thesis
    using bump_malformed_cooldown [where parse = example_parse and http = ?http
        and loads = "stub_loads []" and self = default_plugin,
        OF example_bump_payload sub none]
    by (simp add: example_request_def default_plugin_def)
qed

text \<open>
  The claim as written lists JSON decoding, key or index lookup and integer parsing as
  the failures. An array whose first element is no string ends with AttributeError, and
  a body that decodes to an array ends with TypeError.
\<close>

theorem bump_cooldown_wrong_type:
  \<open>bump example_parse
     (stub_loads
        [(''{"popup_heading_h2":[["Please wait another 7 minutes"]]}'',
          JObj [(''popup_heading_h2'', JArr [JArr [JStr ''Please wait another 7 minutes'']])])])
     (stub_http
        [(example_request,
          \<lparr>url_path = ''/ajax.php'',
             body = ''{"popup_heading_h2":[["Please wait another 7 minutes"]]}''\<rparr>)])
     default_plugin example_trade =
   (Inl AttributeError, [example_request]) \<and>
   bump example_parse
     (stub_loads
        [(''["Please wait another 7 minutes"]'', JArr [JStr ''Please wait another 7 minutes''])])
     (stub_http
        [(example_request,
          \<lparr>url_path = ''/ajax.php'', body = ''["Please wait another 7 minutes"]''\<rparr>)])
     default_plugin example_trade =
   (Inl TypeError, [example_request])\<close>
  using example_bump_payload
  by (simp add: bump_def Let_def stub_http_def stub_loads_def minutes_left_def index_def
        example_request_def default_plugin_def)

section \<open>do_login: a login page without a form\<close>

text \<open>
  Claim C1, as amended. When the login page has no form, \<open>do_login\<close> sends the GET of
  the login page and nothing else, and raises exactly one failure, chosen in this order:
  UserSuspended when the first navigation badge of the page (the first \<open>a\<close> of class
  \<open>nav__button\<close> in document order) has \<open>Suspensions\<close> in its text; otherwise TooFast
  when the first warning banner (the first \<open>div\<close> of class \<open>notification--warning\<close>)
  has \<open>Please wait\<close> in its text; otherwise PrivateProfile when that banner has
  \<open>public Steam profile\<close> in its text; otherwise LoginError.
\<close>

theorem do_login_without_form:
  assumes "page = parse (body (http (GET (login_page self) (headers self))))"
    and "\<forall>n \<in> set (descendants page). \<not> matches ''form'' None n"
  shows "do_login parse http self =
    (Inl (if has_text (find_first ''a'' (Some ''nav__button'') page) ''Suspensions''
            then UserSuspended ''Unable to login, user is suspended.''
          else if has_text (find_first ''div'' (Some ''notification--warning'') page) ''Please wait''
            then TooFast ''Wait 15 seconds before try again.''
          else if has_text (find_first ''div'' (Some ''notification--warning'') page)
                    ''public Steam profile''
            then PrivateProfile ''Your profile must be public to use steamtrades.''
          else LoginError ''Unable to log-in on steamtrades''),
     [GET (login_page self) (headers self)])"
proof -
  from assms(2) have "find_first ''form'' None page = None"
    using find_first_None_iff by blast
  with assms(1) show ?thesis
    by (simp add: do_login_def login_page_failure_def Let_def)
qed

text \<open>
  The example of the claim: a warning banner with both \<open>Please wait\<close> and
  \<open>public Steam profile\<close> gives TooFast.
\<close>

theorem do_login_without_form_witness:
  "do_login (stub_parse [(''login page'', example_wait_page)]) example_session default_plugin =
   (Inl (TooFast ''Wait 15 seconds before try again.''),
    [GET ''https://steamtrades.com/?login'' None])"
proof -
  let ?parse = "stub_parse [(''login page'', example_wait_page)]"
  have page: "example_wait_page = ?parse (body (example_session
      (GET (login_page default_plugin) (headers default_plugin))))"
    by (simp add: stub_parse_def example_session_def stub_http_def default_plugin_def)
  have no_form: "\<forall>n \<in> set (descendants example_wait_page). \<not> matches ''form'' None n"
    by (simp add: example_wait_page_def)
  show ?thesis
    using do_login_without_form [where parse = ?parse and http = example_session
        and self = default_plugin, OF page no_form]
    by (simp add: find_first_def has_text_def default_plugin_def example_wait_page_def)
qed

text \<open>
  The claim as written asks for some navigation badge with \<open>Suspensions\<close> in its text.
  On a page with two badges, the second of them the suspension badge, such a badge
  exists, but the code looks at the first badge only and ends with the generic LoginError.
\<close>

theorem do_login_second_badge:
  "spec_some_has_text ''a'' (Some ''nav__button'') ''Suspensions'' example_blocked_page \<and>
   find_first ''form'' None example_blocked_page = None \<and>
   do_login (stub_parse [(''login page'', example_blocked_page)]) example_session default_plugin =
   (Inl (LoginError ''Unable to log-in on steamtrades''),
    [GET ''https://steamtrades.com/?login'' None])"
  by (simp add: spec_some_has_text_def find_all_def find_first_def do_login_def
        login_page_failure_def has_text_def Let_def stub_parse_def example_session_def
        stub_http_def default_plugin_def example_blocked_page_def)

section \<open>do_login: the page that answers the POST\<close>

text \<open>
  Claim C2, as amended. When the login page has a form, \<open>do_login\<close> sends the GET and
  then the POST of the collected fields, and the page that answers the POST decides the
  outcome. With an avatar link on it: UserSuspended when the first navigation badge has
  \<open>Suspensions\<close> in its text; otherwise the steamid is the piece at index 2 of the
  \<open>href\<close> of the avatar link split at every \<open>/\<close> (KeyError without an \<open>href\<close>, IndexError
  with fewer than three pieces), and the call succeeds. Without an avatar link:
  UserLevelError when the first \<open>div\<close> of class \<open>notification\<close> has \<open>Steam level\<close> in its
  text, otherwise PrivateProfile when the first warning banner has
  \<open>public Steam profile\<close> in its text, otherwise LoginError.
\<close>

theorem do_login_after_post:
  assumes "find_first ''form'' None (parse (body (http (GET (login_page self) (headers self)))))
             = Some form"
    and "data = login_fields (find_all ''input'' None (contents form)) []"
    and "page = parse (body (http (POST (openid_url self @ ''/login'') (headers self) (Some data))))"
  shows "do_login parse http self =
    ((case find_first ''a'' (Some ''nav_avatar'') page of
        Some avatar \<Rightarrow>
          if has_text (find_first ''a'' (Some ''nav__button'') page) ''Suspensions''
            then Inl (UserSuspended ''Unable to login, user is suspended.'')
          else (case getitem avatar ''href'' of
                  None \<Rightarrow> Inl KeyError
                | Some href \<Rightarrow>
                    if 2 < length (split_on CHR ''/'' href)
                      then Inr (dict_update
                                  [(''success'', PBool True),
                                   (''steamid'', PStr (split_on CHR ''/'' href ! 2))]
                                  data)
                    else Inl IndexError)
      | None \<Rightarrow>
          if has_text (find_first ''div'' (Some ''notification'') page) ''Steam level''
            then Inl (UserLevelError ''Steam level must be greater to 1.'')
          else if has_text (find_first ''div'' (Some ''notification--warning'') page)
                    ''public Steam profile''
            then Inl (PrivateProfile ''Your profile must be public to use steamtrades.'')
          else Inl (LoginError ''Unable to log-in on steamtrades'')),
     [GET (login_page self) (headers self),
      POST (openid_url self @ ''/login'') (headers self) (Some data)])"
  unfolding do_login_with_form [where parse = parse and http = http and self = self
      and form = form, OF assms(1)] assms(2,3)
  by (simp add: post_login_def Let_def index_def split: option.splits)

text \<open>
  An answer with the avatar link whose first navigation badge is the suspension badge
  gives UserSuspended, after both requests.
\<close>

theorem do_login_after_post_witness:
  "do_login
     (stub_parse [(''login page'', example_login_page), (''answer'', example_suspended_page)])
     example_session default_plugin =
   (Inl (UserSuspended ''Unable to login, user is suspended.''),
    [GET ''https://steamtrades.com/?login'' None,
     POST ''https://steamcommunity.com/openid/login'' None (Some example_login_data)])"
proof -
  let ?parse = "stub_parse [(''login page'', example_login_page),
                            (''answer'', example_suspended_page)]"
  show ?thesis
    using do_login_after_post [where parse = ?parse and http = example_session
        and self = default_plugin and form = example_login_form
        and data = example_login_data and page = example_suspended_page,
        OF example_find_form example_login_fields [symmetric] example_answer [symmetric]]
    by (simp add: example_suspended_page_def example_avatar_def find_first_def has_text_def
          default_plugin_def)
qed

text \<open>
  The claim as written raises UserSuspended whenever the avatar link and some badge
  with \<open>Suspensions\<close> are on the page. When that badge is the second navigation badge the
  code does not see it, and the login succeeds.
\<close>

theorem do_login_suspension_on_second_badge:
  "spec_some_has_text ''a'' (Some ''nav__button'') ''Suspensions'' example_badges_page \<and>
   find_first ''a'' (Some ''nav_avatar'') example_badges_page = Some example_avatar \<and>
   do_login
     (stub_parse [(''login page'', example_login_page), (''answer'', example_badges_page)])
     example_session default_plugin =
   (Inr [(''success'', PBool True), (''steamid'', PStr ''76561198000000000''),
         (''openid.mode'', PStr ''checkid_setup''), (''openid.ns'', PStr ''two'')],
    [GET ''https://steamtrades.com/?login'' None,
     POST ''https://steamcommunity.com/openid/login'' None (Some example_login_data)])"
  by (simp add: example_do_login
        spec_some_has_text_def find_all_def find_first_def
        post_login_def has_text_def Let_def example_badges_page_def example_avatar_def
        example_login_data_def index_def dict_update_def)

section \<open>do_login: the dictionary of a successful login\<close>

text \<open>
  Claim C7, as amended. A successful \<open>do_login\<close> returns a dictionary (no key twice)
  that holds, for every name that some input of the login form with a name and a value
  carries, the value of the last such input, as a string; and, for the keys \<open>success\<close>
  and \<open>steamid\<close> when no such input has that name, \<open>True\<close> and the piece at index 2 of
  the \<open>href\<close> of the avatar link; and no other key.
\<close>

theorem do_login_payload:
  assumes "do_login parse http self = (Inr result, requests)"
  shows "\<exists>form avatar href steamid.
     find_first ''form'' None (parse (body (http (GET (login_page self) (headers self)))))
       = Some form \<and>
     find_first ''a'' (Some ''nav_avatar'')
       (parse (body (http (POST (openid_url self @ ''/login'') (headers self)
          (Some (login_fields (find_all ''input'' None (contents form)) []))))))
       = Some avatar \<and>
     getitem avatar ''href'' = Some href \<and>
     index (split_on CHR ''/'' href) 2 = Some steamid \<and>
     distinct (map fst result) \<and>
     (\<forall>k. map_of result k =
        (case map_of (rev (spec_form_pairs (find_all ''input'' None (contents form)))) k of
           Some v \<Rightarrow> Some (PStr v)
         | None \<Rightarrow>
             if k = ''success'' then Some (PBool True)
             else if k = ''steamid'' then Some (PStr steamid)
             else None))"
proof -
  from do_login_Inr_form [OF assms] obtain form where
    form: "find_first ''form'' None (parse (body (http (GET (login_page self) (headers self)))))
             = Some form" ..
  let ?inputs = "find_all ''input'' None (contents form)"
  let ?page = "parse (body (http (POST (openid_url self @ ''/login'') (headers self)
          (Some (login_fields ?inputs [])))))"
  from assms have "post_login ?page (login_fields ?inputs []) = Inr result"
    unfolding do_login_with_form [where parse = parse and http = http and self = self
        and form = form, OF form] by simp
  then obtain avatar href steamid where
    avatar: "find_first ''a'' (Some ''nav_avatar'') ?page = Some avatar"
    and href: "getitem avatar ''href'' = Some href"
    and steamid: "index (split_on CHR ''/'' href) 2 = Some steamid"
    and result: "result = dict_update [(''success'', PBool True), (''steamid'', PStr steamid)]
                            (login_fields ?inputs [])"
    unfolding post_login_Inr by blast
  have "distinct (map fst result)"
    unfolding result by (rule payload_distinct)
  moreover have "\<forall>k. map_of result k =
        (case map_of (rev (spec_form_pairs ?inputs)) k of
           Some v \<Rightarrow> Some (PStr v)
         | None \<Rightarrow>
             if k = ''success'' then Some (PBool True)
             else if k = ''steamid'' then Some (PStr steamid)
             else None)"
    unfolding result by (simp only: payload_map_of) simp
  ultimately show ?thesis
    using form avatar href steamid by blast
qed

text \<open>
  The example login with the page without a suspension badge as the answer.
\<close>

theorem do_login_payload_witness:
  "\<exists>form avatar href steamid.
     find_first ''form'' None
       (stub_parse [(''login page'', example_login_page), (''answer'', example_account_page)]
          (body (example_session (GET ''https://steamtrades.com/?login'' None))))
       = Some form \<and>
     find_first ''a'' (Some ''nav_avatar'')
       (stub_parse [(''login page'', example_login_page), (''answer'', example_account_page)]
          (body (example_session (POST ''https://steamcommunity.com/openid/login'' None
             (Some (login_fields (find_all ''input'' None (contents form)) []))))))
       = Some avatar \<and>
     getitem avatar ''href'' = Some href \<and>
     index (split_on CHR ''/'' href) 2 = Some steamid \<and>
     distinct (map fst [(''success'', PBool True), (''steamid'', PStr ''76561198000000000''),
                        (''openid.mode'', PStr ''checkid_setup''),
                        (''openid.ns'', PStr ''two'')]) \<and>
     (\<forall>k. map_of [(''success'', PBool True), (''steamid'', PStr ''76561198000000000''),
                   (''openid.mode'', PStr ''checkid_setup''), (''openid.ns'', PStr ''two'')] k =
        (case map_of (rev (spec_form_pairs (find_all ''input'' None (contents form)))) k of
           Some v \<Rightarrow> Some (PStr v)
         | None \<Rightarrow>
             if k = ''success'' then Some (PBool True)
             else if k = ''steamid'' then Some (PStr steamid)
             else None))"
  using do_login_payload [OF example_account_run] by (simp add: default_plugin_def)

text \<open>
  The claim as written keeps both of two inputs that share a name. In the example the
  form has the pairs \<open>openid.ns\<close>/\<open>one\<close> and \<open>openid.ns\<close>/\<open>two\<close>: the dictionary returned
  has \<open>openid.ns\<close> once, with \<open>two\<close>.
\<close>

theorem do_login_duplicate_fields:
  "spec_form_pairs (find_all ''input'' None (contents example_login_form)) =
     [(''openid.mode'', ''checkid_setup''), (''openid.ns'', ''one''), (''openid.ns'', ''two'')] \<and>
   fst (do_login
     (stub_parse [(''login page'', example_login_page), (''answer'', example_account_page)])
     example_session default_plugin) =
   Inr [(''success'', PBool True), (''steamid'', PStr ''76561198000000000''),
        (''openid.mode'', PStr ''checkid_setup''), (''openid.ns'', PStr ''two'')]"
proof -
  have "spec_form_pairs (find_all ''input'' None (contents example_login_form)) =
          [(''openid.mode'', ''checkid_setup''), (''openid.ns'', ''one''), (''openid.ns'', ''two'')]"
    by (simp add: example_login_form_def find_all_def)
  moreover have "fst (do_login
     (stub_parse [(''login page'', example_login_page), (''answer'', example_account_page)])
     example_session default_plugin) =
   Inr [(''success'', PBool True), (''steamid'', PStr ''76561198000000000''),
        (''openid.mode'', PStr ''checkid_setup''), (''openid.ns'', PStr ''two'')]"
    by (simp add: example_do_login find_first_def post_login_def has_text_def Let_def
          example_account_page_def example_avatar_def example_login_data_def index_def
          dict_update_def)
  ultimately show ?thesis by simp
qed

text \<open>
  The claim as written always has \<open>success\<close> true. A form with an input named \<open>success\<close>
  puts the value of that input there.
\<close>

lemma do_login_success_overwritten:
  "do_login
     (stub_parse
        [(''login page'',
          [Tag ''form'' [] []
             [Tag ''input'' [] [(''name'', ''success''), (''value'', ''no'')] []]]),
         (''answer'', example_account_page)])
     (stub_http
        [(GET ''https://steamtrades.com/?login'' None,
          \<lparr>url_path = ''/'', body = ''login page''\<rparr>),
         (POST ''https://steamcommunity.com/openid/login'' None (Some [(''success'', ''no'')]),
          \<lparr>url_path = ''/'', body = ''answer''\<rparr>)])
     default_plugin =
   (Inr [(''success'', PStr ''no''), (''steamid'', PStr ''76561198000000000'')],
    [GET ''https://steamtrades.com/?login'' None,
     POST ''https://steamcommunity.com/openid/login'' None (Some [(''success'', ''no'')])])"
  by (simp add: do_login_def post_login_def Let_def stub_parse_def stub_http_def
        default_plugin_def find_first_def find_all_def has_text_def index_def dict_update_def
        example_account_page_def example_avatar_def)

end
